theory Spec2Isabelle
  imports Main
begin

section \<open>The pre-commit configuration\<close>

text \<open>
  The configuration file is a YAML document. Its value is written down here node by
  node, lines 1 to 42 of the file: a block mapping is the list of its keys with their
  values, in the order of the file; a block or flow sequence is a list; every scalar of
  the file is a plain or double-quoted string.
\<close>

datatype yaml = YStr string | YSeq "yaml list" | YMap "(string \<times> yaml) list"

definition pre_commit_config :: yaml where
  "pre_commit_config = YMap [(''repos'', YSeq [
     YMap [(''repo'', YStr ''https://github.com/pre-commit/pre-commit-hooks''),
           (''rev'', YStr ''v2.5.0''),
           (''hooks'', YSeq [
              YMap [(''id'', YStr ''trailing-whitespace'')],
              YMap [(''id'', YStr ''end-of-file-fixer'')],
              YMap [(''id'', YStr ''check-docstring-first'')],
              YMap [(''id'', YStr ''check-json'')],
              YMap [(''id'', YStr ''check-yaml'')],
              YMap [(''id'', YStr ''pretty-format-json''),
                    (''args'', YSeq [YStr ''--autofix'', YStr ''--indent=2'',
                                     YStr ''--no-sort-keys''])]])],
     YMap [(''repo'', YStr ''https://github.com/ambv/black''),
           (''rev'', YStr ''19.10b0''),
           (''hooks'', YSeq [
              YMap [(''id'', YStr ''black''),
                    (''args'', YSeq [YStr ''--line-length'', YStr ''100''])]])],
     YMap [(''repo'', YStr ''https://gitlab.com/pycqa/flake8''),
           (''rev'', YStr ''3.8.0a2''),
           (''hooks'', YSeq [
              YMap [(''id'', YStr ''flake8'')]])],
     YMap [(''repo'', YStr ''https://github.com/asottile/seed-isort-config''),
           (''rev'', YStr ''v2.1.1''),
           (''hooks'', YSeq [
              YMap [(''id'', YStr ''seed-isort-config'')]])],
     YMap [(''repo'', YStr ''https://github.com/pre-commit/mirrors-isort''),
           (''rev'', YStr ''v4.3.21''),
           (''hooks'', YSeq [
              YMap [(''id'', YStr ''isort'')]])],
     YMap [(''repo'', YStr ''https://github.com/deathbeds/prenotebook''),
           (''rev'', YStr ''master''),
           (''hooks'', YSeq [
              YMap [(''id'', YStr ''prenotebook'')]])],
     YMap [(''repo'', YStr ''https://github.com/myint/rstcheck''),
           (''rev'', YStr ''master''),
           (''hooks'', YSeq [
              YMap [(''id'', YStr ''rstcheck'')]])]])]"

text \<open>Reading the document: the value under a key of a mapping, the items of a sequence.\<close>

fun field :: "string \<Rightarrow> yaml \<Rightarrow> yaml option" where
  "field k (YMap kvs) = map_of kvs k"
| "field k _ = None"

fun items :: "yaml option \<Rightarrow> yaml list option" where
  "items (Some (YSeq ys)) = Some ys"
| "items _ = None"

fun scalar :: "yaml option \<Rightarrow> string option" where
  "scalar (Some (YStr s)) = Some s"
| "scalar _ = None"

definition repos :: "yaml list" where
  "repos = (case items (field ''repos'' pre_commit_config) of Some rs \<Rightarrow> rs | None \<Rightarrow> [])"

definition hooks_of :: "yaml \<Rightarrow> yaml list" where
  "hooks_of r = (case items (field ''hooks'' r) of Some hs \<Rightarrow> hs | None \<Rightarrow> [])"

text \<open>
  The shape of one hook: an identifier, and either no \<open>args\<close> key or a list of
  scalars under it.
\<close>

fun is_scalar :: "yaml \<Rightarrow> bool" where
  "is_scalar (YStr _) = True"
| "is_scalar _ = False"

definition hook_ok :: "yaml \<Rightarrow> bool" where
  "hook_ok h = (case scalar (field ''id'' h) of
       None \<Rightarrow> False
     | Some i \<Rightarrow> i \<noteq> [] \<and>
         (case field ''args'' h of
            None \<Rightarrow> True
          | Some a \<Rightarrow> (case items (Some a) of None \<Rightarrow> False | Some as \<Rightarrow> list_all is_scalar as)))"

text \<open>
  The shape of one record: a source-repository URL, a revision tag and a list of at
  least one well-formed hook.
\<close>

definition repo_ok :: "yaml \<Rightarrow> bool" where
  "repo_ok r = (case (scalar (field ''repo'' r), scalar (field ''rev'' r), items (field ''hooks'' r)) of
       (Some url, Some tag, Some hs) \<Rightarrow> url \<noteq> [] \<and> tag \<noteq> [] \<and> hs \<noteq> [] \<and> list_all hook_ok hs
     | _ \<Rightarrow> False)"

text \<open>The identifier of a hook together with its argument list, when it has one.\<close>

definition hook_decl :: "yaml \<Rightarrow> string option \<times> string option list option" where
  "hook_decl h = (scalar (field ''id'' h),
                  map_option (map (\<lambda>a. scalar (Some a))) (items (field ''args'' h)))"

section \<open>The notebook\<close>

text \<open>
  The notebook is a list of cells, markdown or code. A code cell is a sequence of Python
  statements, possibly under an IPython cell magic (a first line \<open>%%name\<close>). The
  statements are written down as syntax trees with the node names of Python's \<open>ast\<close>
  module, restricted to the forms the notebook uses. Comments carry no code: a cell of
  comments only has no statement. The text of markdown cells is documentation and is
  left out. A floating-point literal is kept as its digits.
\<close>

datatype const = Str string | Num int | Float string | Bool bool | NoneC

datatype operator = Add | Sub | Mult | Div | Pow

datatype expr =
    Name string
  | Constant const
  | Attribute expr string
  | Subscript expr expr
  | Call expr "expr list" "(string \<times> expr) list"
  | BinOp expr operator expr
  | USub expr
  | Tuple "expr list"

text \<open>
  \<open>Help e\<close> is IPython's \<open>e?\<close>; \<open>For xs e body\<close> is a loop over \<open>e\<close> that unpacks
  each item into the names \<open>xs\<close>.
\<close>

datatype stmt =
    Import string "string option"
  | ImportFrom string string "string option"
  | Assign string expr
  | Expr expr
  | FunctionDef string "string list" "stmt list"
  | Return expr
  | For "string list" expr "stmt list"
  | Break
  | Help expr

datatype cell = Markdown | Code "string option" "stmt list"

abbreviation Method :: "expr \<Rightarrow> string \<Rightarrow> expr list \<Rightarrow> (string \<times> expr) list \<Rightarrow> expr" where
  "Method e m as kws \<equiv> Call (Attribute e m) as kws"

abbreviation S :: "string \<Rightarrow> expr" where
  "S s \<equiv> Constant (Str s)"

abbreviation I :: "int \<Rightarrow> expr" where
  "I n \<equiv> Constant (Num n)"

text \<open>The recurring expression \<open>x.sst.sel(lon=300, lat=50).plot(...)\<close>.\<close>

abbreviation Point_plot :: "expr \<Rightarrow> (string \<times> expr) list \<Rightarrow> expr" where
  "Point_plot x kws \<equiv>
     Method (Method (Attribute x ''sst'') ''sel'' [] [(''lon'', I 300), (''lat'', I 50)]) ''plot'' [] kws"

subsection \<open>The code cells, numbered by their position in the notebook\<close>

definition cell_1 :: "stmt list" where
  "cell_1 = [Import ''expectexception'' None,
             Import ''numpy'' (Some ''np''),
             Import ''xarray'' (Some ''xr''),
             ImportFrom ''matplotlib'' ''pyplot'' (Some ''plt'')]"

definition cell_3 :: "stmt list" where
  "cell_3 = []"

definition cell_4 :: "stmt list" where
  "cell_4 = [Import ''gcsfs'' None,
             Assign ''fs'' (Method (Name ''gcsfs'') ''GCSFileSystem'' [] []),
             Assign ''ds''
               (Method
                  (Method (Name ''xr'') ''open_zarr''
                     [Method (Name ''fs'') ''get_mapper''
                        [S ''gs://pangeo-noaa-ncei/noaa.ersst.v5.zarr''] []]
                     [(''consolidated'', Constant (Bool True))])
                  ''load'' [] []),
             Expr (Name ''ds'')]"

definition cell_6 :: "stmt list" where
  "cell_6 = [Expr (Method (Subscript (Attribute (Name ''ds'') ''sst'') (I 0)) ''plot'' []
                     [(''vmin'', USub (I 2)), (''vmax'', I 30)])]"

definition cell_8 :: "stmt list" where
  "cell_8 = [Assign ''sst_kelvin''
               (BinOp (Attribute (Name ''ds'') ''sst'') Add (Constant (Float ''273.15''))),
             Expr (Name ''sst_kelvin'')]"

definition cell_10 :: "stmt list" where
  "cell_10 = [Assign ''f''
                (BinOp (Constant (Float ''0.5'')) Mult
                   (Method (Name ''np'') ''log'' [BinOp (Name ''sst_kelvin'') Pow (I 2)] [])),
              Expr (Name ''f'')]"

definition cell_12 :: "stmt list" where
  "cell_12 = [Import ''gsw'' None,
              Help (Attribute (Name ''gsw'') ''t90_from_t68'')]"

definition cell_13 :: "stmt list" where
  "cell_13 = [Expr (Method (Name ''gsw'') ''t90_from_t68'' [Attribute (Name ''ds'') ''sst''] [])]"

definition cell_15 :: "stmt list" where
  "cell_15 = [Expr (Method (Name ''xr'') ''apply_ufunc''
                      [Attribute (Name ''gsw'') ''t90_from_t68'', Attribute (Name ''ds'') ''sst''] [])]"

definition cell_18 :: "stmt list" where
  "cell_18 = [Assign ''sst'' (Attribute (Name ''ds'') ''sst''),
              Expr (Method (Name ''sst'') ''mean'' [] [(''axis'', I 0)])]"

definition cell_19 :: "stmt list" where
  "cell_19 = [Expr (Method (Name ''sst'') ''mean'' [] [(''axis'', Tuple [I 1, I 2])])]"

definition cell_20 :: "stmt list" where
  "cell_20 = [Expr (Method (Name ''sst'') ''mean'' [] [])]"

definition cell_22 :: "stmt list" where
  "cell_22 = [Expr (Method (Name ''sst'') ''mean'' [] [(''dim'', S ''time'')])]"

definition cell_25 :: "stmt list" where
  "cell_25 = []"

definition cell_27 :: "stmt list" where
  "cell_27 = [Assign ''weights''
                (Method (Name ''np'') ''cos''
                   [Method (Name ''np'') ''deg2rad'' [Attribute (Name ''ds'') ''lat''] []] []),
              Expr (Attribute (Name ''weights'') ''dims'')]"

definition cell_29 :: "stmt list" where
  "cell_29 = [Expr (Attribute (BinOp (Attribute (Name ''ds'') ''sst'') Mult (Name ''weights'')) ''dims'')]"

definition cell_32 :: "stmt list" where
  "cell_32 = [Assign ''sst_mean''
                (BinOp
                   (Method (BinOp (Attribute (Name ''ds'') ''sst'') Mult (Name ''weights'')) ''sum'' []
                      [(''dim'', Tuple [S ''lon'', S ''lat''])])
                   Div
                   (Method (Name ''weights'') ''sum'' [] [(''dim'', S ''lat'')])),
              Expr (Method (Name ''sst_mean'') ''plot'' [] []),
              Expr (Method (Name ''plt'') ''title'' [S ''This is wrong!''] [])]"

definition cell_34 :: "stmt list" where
  "cell_34 = [Assign ''sst_weighted''
                (Method (Attribute (Name ''ds'') ''sst'') ''weighted'' [Name ''weights''] []),
              Expr (Name ''sst_weighted'')]"

definition cell_35 :: "stmt list" where
  "cell_35 = [Expr (Method
                      (Method (Name ''sst_weighted'') ''mean'' []
                         [(''dim'', Tuple [S ''lon'', S ''lat''])])
                      ''plot'' [] []),
              Expr (Method (Name ''plt'') ''title'' [S ''Correct Global Mean SST''] [])]"

definition cell_37 :: "stmt list" where
  "cell_37 = [Expr (Point_plot (Name ''ds'') [])]"

definition cell_39 :: "stmt list" where
  "cell_39 = [Expr (Attribute (Name ''ds'') ''time'')]"

definition cell_41 :: "stmt list" where
  "cell_41 = [Help (Attribute (Name ''ds'') ''groupby'')]"

definition cell_43 :: "stmt list" where
  "cell_43 = [Expr (Attribute (Attribute (Name ''ds'') ''time'') ''dt'')]"

definition cell_44 :: "stmt list" where
  "cell_44 = [Expr (Attribute (Attribute (Attribute (Name ''ds'') ''time'') ''dt'') ''month'')]"

definition cell_47 :: "stmt list" where
  "cell_47 = [Assign ''gb''
                (Method (Name ''ds'') ''groupby''
                   [Attribute (Attribute (Attribute (Name ''ds'') ''time'') ''dt'') ''month''] []),
              Expr (Name ''gb'')]"

definition cell_49 :: "stmt list" where
  "cell_49 = [Assign ''gb'' (Method (Name ''ds'') ''groupby'' [S ''time.month''] []),
              Expr (Name ''gb'')]"

definition cell_51 :: "stmt list" where
  "cell_51 = [For [''group_name'', ''group_ds''] (Name ''gb'') [Break],
              Expr (Call (Name ''print'') [Name ''group_name''] []),
              Expr (Name ''group_ds'')]"

definition cell_53 :: "stmt list" where
  "cell_53 = [Help (Attribute (Name ''gb'') ''map'')]"

definition cell_55 :: "stmt list" where
  "cell_55 = [Expr (Method (Name ''gb'') ''map'' [Attribute (Name ''np'') ''mean''] [])]"

definition time_mean :: stmt where
  "time_mean = FunctionDef ''time_mean'' [''a'']
                 [Return (Method (Name ''a'') ''mean'' [] [(''dim'', S ''time'')])]"

definition cell_57 :: "stmt list" where
  "cell_57 = [time_mean,
              Expr (Method (Name ''gb'') ''map'' [Name ''time_mean''] [])]"

definition cell_59 :: "stmt list" where
  "cell_59 = [Assign ''ds_mm'' (Method (Name ''gb'') ''mean'' [] [(''dim'', S ''time'')]),
              Expr (Name ''ds_mm'')]"

definition cell_61 :: "stmt list" where
  "cell_61 = [Expr (Point_plot (Name ''ds_mm'') [])]"

definition cell_63 :: "stmt list" where
  "cell_63 = [Expr (Method
                      (Attribute
                         (Method (Attribute (Name ''ds_mm'') ''sst'') ''mean'' [] [(''dim'', S ''lon'')])
                         ''plot'')
                      ''contourf'' []
                      [(''x'', S ''month''), (''levels'', I 12), (''vmin'', USub (I 2)), (''vmax'', I 30)])]"

definition cell_65 :: "stmt list" where
  "cell_65 = [Expr (Method
                      (BinOp
                         (Method (Attribute (Name ''ds_mm'') ''sst'') ''sel'' [] [(''month'', I 1)])
                         Sub
                         (Method (Attribute (Name ''ds_mm'') ''sst'') ''sel'' [] [(''month'', I 7)]))
                      ''plot'' [] [(''vmax'', I 10)])]"

definition remove_time_mean :: stmt where
  "remove_time_mean = FunctionDef ''remove_time_mean'' [''x'']
                        [Return (BinOp (Name ''x'') Sub
                                   (Method (Name ''x'') ''mean'' [] [(''dim'', S ''time'')]))]"

definition cell_67 :: "stmt list" where
  "cell_67 = [remove_time_mean,
              Assign ''ds_anom''
                (Method (Method (Name ''ds'') ''groupby'' [S ''time.month''] []) ''map''
                   [Name ''remove_time_mean''] []),
              Expr (Name ''ds_anom'')]"

definition cell_69 :: "stmt list" where
  "cell_69 = [Assign ''gb'' (Method (Name ''ds'') ''groupby'' [S ''time.month''] []),
              Assign ''ds_anom''
                (BinOp (Name ''gb'') Sub (Method (Name ''gb'') ''mean'' [] [(''dim'', S ''time'')])),
              Expr (Name ''ds_anom'')]"

definition cell_71 :: "stmt list" where
  "cell_71 = [Expr (Point_plot (Name ''ds_anom'') [])]"

definition cell_73 :: "stmt list" where
  "cell_73 = [Expr (Method
                      (Attribute
                         (BinOp
                            (Method (Name ''ds_anom'') ''sel'' [] [(''time'', S ''2018-01-01'')])
                            Sub
                            (Method (Name ''ds_anom'') ''sel'' [] [(''time'', S ''1960-01-01'')]))
                         ''sst'')
                      ''plot'' [] [])]"

definition cell_75 :: "stmt list" where
  "cell_75 = [Assign ''resample_obj'' (Method (Name ''ds_anom'') ''resample'' [] [(''time'', S ''5Y'')]),
              Expr (Name ''resample_obj'')]"

definition cell_76 :: "stmt list" where
  "cell_76 = [Assign ''ds_anom_resample''
                (Method (Name ''resample_obj'') ''mean'' [] [(''dim'', S ''time'')]),
              Expr (Name ''ds_anom_resample'')]"

definition cell_77 :: "stmt list" where
  "cell_77 = [Expr (Point_plot (Name ''ds_anom'') []),
              Expr (Point_plot (Name ''ds_anom_resample'') [(''marker'', S ''o'')])]"

definition cell_79 :: "stmt list" where
  "cell_79 = [Assign ''ds_anom_rolling''
                (Method
                   (Method (Name ''ds_anom'') ''rolling'' []
                      [(''time'', I 12), (''center'', Constant (Bool True))])
                   ''mean'' [] []),
              Expr (Name ''ds_anom_rolling'')]"

definition cell_80 :: "stmt list" where
  "cell_80 = [Expr (Point_plot (Name ''ds_anom'') [(''label'', S ''monthly anom'')]),
              Expr (Point_plot (Name ''ds_anom_resample'')
                      [(''marker'', S ''o''), (''label'', S ''5 year resample'')]),
              Expr (Point_plot (Name ''ds_anom_rolling'') [(''label'', S ''12 month rolling mean'')]),
              Expr (Method (Name ''plt'') ''legend'' [] [])]"

definition cell_82 :: "stmt list" where
  "cell_82 = [Assign ''ds_anom_coarsen_time''
                (Method (Method (Name ''ds_anom'') ''coarsen'' [] [(''time'', I 12)]) ''mean'' [] []),
              Expr (Point_plot (Name ''ds_anom_rolling'') [(''label'', S ''12 month rolling mean'')]),
              Expr (Point_plot (Name ''ds_anom_coarsen_time'')
                      [(''marker'', S ''^''), (''label'', S ''12 item coarsen'')]),
              Expr (Method (Name ''plt'') ''legend'' [] [])]"

definition cell_83 :: "stmt list" where
  "cell_83 = [Assign ''ds_anom_coarsen_space''
                (Method
                   (Method (Name ''ds_anom'') ''coarsen'' [] [(''lon'', I 4), (''lat'', I 4)])
                   ''mean'' [] [])]"

definition cell_84 :: "stmt list" where
  "cell_84 = [Assign ''ds_anom_coarsen_space''
                (Method
                   (Method
                      (Method (Name ''ds_anom'') ''isel'' []
                         [(''lat'', Call (Name ''slice'') [I 0, USub (I 1)] [])])
                      ''coarsen'' [] [(''lon'', I 4), (''lat'', I 4)])
                   ''mean'' [] []),
              Expr (Name ''ds_anom_coarsen_space'')]"

definition cell_85 :: "stmt list" where
  "cell_85 = [Expr (Method
                      (Method (Attribute (Name ''ds_anom_coarsen_space'') ''sst'') ''isel'' []
                         [(''time'', I 0)])
                      ''plot'' [] [])]"

definition cell_87 :: "stmt list" where
  "cell_87 = [Assign ''basin''
                (Method (Name ''xr'') ''open_dataset''
                   [S ''http://iridl.ldeo.columbia.edu/SOURCES/.NOAA/.NODC/.WOA09/.Masks/.basin/dods'']
                   []),
              Expr (Name ''basin'')]"

definition notebook :: "cell list" where
  "notebook = [
     Markdown, Code None cell_1, Markdown, Code None cell_3, Code None cell_4,
     Markdown, Code None cell_6, Markdown, Code None cell_8, Markdown,
     Code None cell_10, Markdown, Code None cell_12, Code None cell_13, Markdown,
     Code None cell_15, Markdown, Markdown, Code None cell_18, Code None cell_19,
     Code None cell_20, Markdown, Code None cell_22, Markdown, Markdown,
     Code None cell_25, Markdown, Code None cell_27, Markdown, Code None cell_29,
     Markdown, Markdown, Code None cell_32, Markdown, Code None cell_34,
     Code None cell_35, Markdown, Code None cell_37, Markdown, Code None cell_39,
     Markdown, Code None cell_41, Markdown, Code None cell_43, Code None cell_44,
     Markdown, Markdown, Code None cell_47, Markdown, Code None cell_49, Markdown,
     Code None cell_51, Markdown, Code None cell_53, Markdown, Code None cell_55,
     Markdown, Code None cell_57, Markdown, Code None cell_59, Markdown,
     Code None cell_61, Markdown, Code None cell_63, Markdown, Code None cell_65,
     Markdown, Code None cell_67, Markdown, Code None cell_69, Markdown,
     Code None cell_71, Markdown, Code None cell_73, Markdown, Code None cell_75,
     Code None cell_76, Code None cell_77, Markdown, Code None cell_79,
     Code None cell_80, Markdown, Code None cell_82,
     Code (Some ''expect_exception'') cell_83, Code None cell_84, Code None cell_85,
     Markdown, Code None cell_87]"

subsection \<open>Reading the syntax\<close>

fun cell_stmts :: "cell \<Rightarrow> stmt list" where
  "cell_stmts Markdown = []"
| "cell_stmts (Code magic ss) = ss"

definition statements :: "cell list \<Rightarrow> stmt list" where
  "statements nb = concat (map cell_stmts nb)"


fun names :: "expr \<Rightarrow> string list" where
  "names (Name n) = [n]"
| "names (Constant c) = []"
| "names (Attribute e a) = names e"
| "names (Subscript e i) = names e @ names i"
| "names (Call f as kws) = names f @ concat (map names as) @ concat (map (\<lambda>(k, e). names e) kws)"
| "names (BinOp a opr b) = names a @ names b"
| "names (USub e) = names e"
| "names (Tuple es) = concat (map names es)"

text \<open>The expressions of a statement, those of the statements nested in it included.\<close>

fun stmt_exprs :: "stmt \<Rightarrow> expr list" where
  "stmt_exprs (Assign x e) = [e]"
| "stmt_exprs (Expr e) = [e]"
| "stmt_exprs (FunctionDef f ps body) = concat (map stmt_exprs body)"
| "stmt_exprs (Return e) = [e]"
| "stmt_exprs (For xs e body) = e # concat (map stmt_exprs body)"
| "stmt_exprs (Help e) = [e]"
| "stmt_exprs _ = []"


definition stmt_names :: "stmt \<Rightarrow> string list" where
  "stmt_names s = concat (map names (stmt_exprs s))"









text \<open>The function definitions of the notebook, nested ones included.\<close>

fun defs_of :: "stmt \<Rightarrow> stmt list" where
  "defs_of (FunctionDef f ps body) = FunctionDef f ps body # concat (map defs_of body)"
| "defs_of (For xs e body) = concat (map defs_of body)"
| "defs_of _ = []"

definition function_defs :: "cell list \<Rightarrow> stmt list" where
  "function_defs nb = concat (map defs_of (statements nb))"

fun def_name :: "stmt \<Rightarrow> string" where
  "def_name (FunctionDef f ps body) = f"
| "def_name _ = []"

fun def_params :: "stmt \<Rightarrow> string list" where
  "def_params (FunctionDef f ps body) = ps"
| "def_params _ = []"

text \<open>The names a function reads that are not its parameters.\<close>

definition free_names :: "stmt \<Rightarrow> string list" where
  "free_names d = filter (\<lambda>n. n \<notin> set (def_params d)) (stmt_names d)"

subsection \<open>Evaluation\<close>

text \<open>
  The notebook's own code only combines operations of its libraries: attribute access,
  calls, arithmetic on arrays. The libraries are a parameter of the evaluation, and
  nothing is assumed about them: a value is anything of a type \<open>'v\<close>, and every
  library operation may fail, and may read and change a library state \<open>'h\<close> that
  stands for all that the libraries keep behind the values (array contents, caches,
  figures).
\<close>

datatype error = NameError string | TypeError | LibraryError string | NotModelled

record ('v, 'h) library =
  literal :: "const \<Rightarrow> 'v"
  make_tuple :: "'v list \<Rightarrow> 'v"
  builtin :: "string \<Rightarrow> 'v option"
  getattr :: "'v \<Rightarrow> string \<Rightarrow> 'h \<Rightarrow> (error + 'v) \<times> 'h"
  getitem :: "'v \<Rightarrow> 'v \<Rightarrow> 'h \<Rightarrow> (error + 'v) \<times> 'h"
  call :: "'v \<Rightarrow> 'v list \<Rightarrow> (string \<times> 'v) list \<Rightarrow> 'h \<Rightarrow> (error + 'v) \<times> 'h"
  binop :: "operator \<Rightarrow> 'v \<Rightarrow> 'v \<Rightarrow> 'h \<Rightarrow> (error + 'v) \<times> 'h"
  negative :: "'v \<Rightarrow> 'h \<Rightarrow> (error + 'v) \<times> 'h"

type_synonym 'v env = "string \<Rightarrow> 'v option"

text \<open>
  Python resolves a name in the local scope of the running function, then among the
  globals (the bindings made by the cells), then among the builtins.
\<close>

definition lookup :: "('v, 'h) library \<Rightarrow> 'v env \<Rightarrow> 'v env \<Rightarrow> string \<Rightarrow> 'v option" where
  "lookup L g l n = (case l n of Some v \<Rightarrow> Some v | None \<Rightarrow>
                      (case g n of Some v \<Rightarrow> Some v | None \<Rightarrow> builtin L n))"

text \<open>
  Evaluation order is Python's: the function before its arguments, positional arguments
  before keyword arguments, left before right. An error ends the evaluation.
\<close>

fun eval :: "('v, 'h) library \<Rightarrow> 'v env \<Rightarrow> 'v env \<Rightarrow> expr \<Rightarrow> 'h \<Rightarrow> (error + 'v) \<times> 'h"
and eval_list :: "('v, 'h) library \<Rightarrow> 'v env \<Rightarrow> 'v env \<Rightarrow> expr list \<Rightarrow> 'h \<Rightarrow> (error + 'v list) \<times> 'h"
and eval_kws :: "('v, 'h) library \<Rightarrow> 'v env \<Rightarrow> 'v env \<Rightarrow> (string \<times> expr) list \<Rightarrow> 'h
                   \<Rightarrow> (error + (string \<times> 'v) list) \<times> 'h"
where
  "eval L g l (Name n) h =
     (case lookup L g l n of None \<Rightarrow> (Inl (NameError n), h) | Some v \<Rightarrow> (Inr v, h))"
| "eval L g l (Constant c) h = (Inr (literal L c), h)"
| "eval L g l (Attribute e a) h =
     (case eval L g l e h of (Inl err, h') \<Rightarrow> (Inl err, h') | (Inr v, h') \<Rightarrow> getattr L v a h')"
| "eval L g l (Subscript e i) h =
     (case eval L g l e h of (Inl err, h') \<Rightarrow> (Inl err, h') | (Inr v, h') \<Rightarrow>
        (case eval L g l i h' of (Inl err, h'') \<Rightarrow> (Inl err, h'')
         | (Inr w, h'') \<Rightarrow> getitem L v w h''))"
| "eval L g l (Call f as kws) h =
     (case eval L g l f h of (Inl err, h1) \<Rightarrow> (Inl err, h1) | (Inr fv, h1) \<Rightarrow>
        (case eval_list L g l as h1 of (Inl err, h2) \<Rightarrow> (Inl err, h2) | (Inr vs, h2) \<Rightarrow>
           (case eval_kws L g l kws h2 of (Inl err, h3) \<Rightarrow> (Inl err, h3)
            | (Inr kvs, h3) \<Rightarrow> call L fv vs kvs h3)))"
| "eval L g l (BinOp a opr b) h =
     (case eval L g l a h of (Inl err, h') \<Rightarrow> (Inl err, h') | (Inr v, h') \<Rightarrow>
        (case eval L g l b h' of (Inl err, h'') \<Rightarrow> (Inl err, h'')
         | (Inr w, h'') \<Rightarrow> binop L opr v w h''))"
| "eval L g l (USub e) h =
     (case eval L g l e h of (Inl err, h') \<Rightarrow> (Inl err, h') | (Inr v, h') \<Rightarrow> negative L v h')"
| "eval L g l (Tuple es) h =
     (case eval_list L g l es h of (Inl err, h') \<Rightarrow> (Inl err, h')
      | (Inr vs, h') \<Rightarrow> (Inr (make_tuple L vs), h'))"
| "eval_list L g l [] h = (Inr [], h)"
| "eval_list L g l (e # es) h =
     (case eval L g l e h of (Inl err, h') \<Rightarrow> (Inl err, h') | (Inr v, h') \<Rightarrow>
        (case eval_list L g l es h' of (Inl err, h'') \<Rightarrow> (Inl err, h'')
         | (Inr vs, h'') \<Rightarrow> (Inr (v # vs), h'')))"
| "eval_kws L g l [] h = (Inr [], h)"
| "eval_kws L g l ((k, e) # kws) h =
     (case eval L g l e h of (Inl err, h') \<Rightarrow> (Inl err, h') | (Inr v, h') \<Rightarrow>
        (case eval_kws L g l kws h' of (Inl err, h'') \<Rightarrow> (Inl err, h'')
         | (Inr kvs, h'') \<Rightarrow> (Inr ((k, v) # kvs), h'')))"

text \<open>
  The body of a function: \<open>return\<close> ends it with a value, an expression statement is
  evaluated for its effect, the end of the body returns \<open>None\<close>. The functions of the
  notebook contain no other statement; any other one ends the run with \<open>NotModelled\<close>.
\<close>

fun exec_body :: "('v, 'h) library \<Rightarrow> 'v env \<Rightarrow> 'v env \<Rightarrow> stmt list \<Rightarrow> 'h \<Rightarrow> (error + 'v) \<times> 'h" where
  "exec_body L g l [] h = (Inr (literal L NoneC), h)"
| "exec_body L g l (Return e # ss) h = eval L g l e h"
| "exec_body L g l (Expr e # ss) h =
     (case eval L g l e h of (Inl err, h') \<Rightarrow> (Inl err, h') | (Inr v, h') \<Rightarrow> exec_body L g l ss h')"
| "exec_body L g l (s # ss) h = (Inl NotModelled, h)"

text \<open>
  Calling a function defined with \<open>def\<close> on positional arguments: the parameters are
  bound to the arguments in a fresh local scope (a wrong number of arguments is a
  \<open>TypeError\<close>) and the body runs with the globals \<open>g\<close> of the notebook behind it.
\<close>

fun call_function :: "('v, 'h) library \<Rightarrow> 'v env \<Rightarrow> stmt \<Rightarrow> 'v list \<Rightarrow> 'h \<Rightarrow> (error + 'v) \<times> 'h" where
  "call_function L g (FunctionDef f ps body) vs h =
     (if length vs = length ps then exec_body L g (map_of (zip ps vs)) body h
      else (Inl TypeError, h))"
| "call_function L g _ vs h = (Inl TypeError, h)"

text \<open>
  A small library to run the evaluation on: values are integers, the library state
  counts the operations performed, attribute access and calls hand their receiver back.
\<close>

definition sample_library :: "(int, nat) library" where
  "sample_library = \<lparr>
     literal = (\<lambda>c. case c of Num n \<Rightarrow> n | _ \<Rightarrow> 0),
     make_tuple = sum_list,
     builtin = (\<lambda>n. None),
     getattr = (\<lambda>v a h. (Inr v, Suc h)),
     getitem = (\<lambda>v w h. (Inr v, Suc h)),
     call = (\<lambda>f vs kvs h. (Inr f, Suc h)),
     binop = (\<lambda>opr v w h.
        (Inr (case opr of Add \<Rightarrow> v + w | Sub \<Rightarrow> v - w | Mult \<Rightarrow> v * w
                        | Div \<Rightarrow> v div w | Pow \<Rightarrow> v ^ nat w), Suc h)),
     negative = (\<lambda>v h. (Inr (- v), Suc h)) \<rparr>"

section \<open>Properties of the configuration\<close>

lemma repos_eq:
  "repos = [
     YMap [(''repo'', YStr ''https://github.com/pre-commit/pre-commit-hooks''),
           (''rev'', YStr ''v2.5.0''),
           (''hooks'', YSeq [
              YMap [(''id'', YStr ''trailing-whitespace'')],
              YMap [(''id'', YStr ''end-of-file-fixer'')],
              YMap [(''id'', YStr ''check-docstring-first'')],
              YMap [(''id'', YStr ''check-json'')],
              YMap [(''id'', YStr ''check-yaml'')],
              YMap [(''id'', YStr ''pretty-format-json''),
                    (''args'', YSeq [YStr ''--autofix'', YStr ''--indent=2'',
                                     YStr ''--no-sort-keys''])]])],
     YMap [(''repo'', YStr ''https://github.com/ambv/black''),
           (''rev'', YStr ''19.10b0''),
           (''hooks'', YSeq [
              YMap [(''id'', YStr ''black''),
                    (''args'', YSeq [YStr ''--line-length'', YStr ''100''])]])],
     YMap [(''repo'', YStr ''https://gitlab.com/pycqa/flake8''),
           (''rev'', YStr ''3.8.0a2''),
           (''hooks'', YSeq [
              YMap [(''id'', YStr ''flake8'')]])],
     YMap [(''repo'', YStr ''https://github.com/asottile/seed-isort-config''),
           (''rev'', YStr ''v2.1.1''),
           (''hooks'', YSeq [
              YMap [(''id'', YStr ''seed-isort-config'')]])],
     YMap [(''repo'', YStr ''https://github.com/pre-commit/mirrors-isort''),
           (''rev'', YStr ''v4.3.21''),
           (''hooks'', YSeq [
              YMap [(''id'', YStr ''isort'')]])],
     YMap [(''repo'', YStr ''https://github.com/deathbeds/prenotebook''),
           (''rev'', YStr ''master''),
           (''hooks'', YSeq [
              YMap [(''id'', YStr ''prenotebook'')]])],
     YMap [(''repo'', YStr ''https://github.com/myint/rstcheck''),
           (''rev'', YStr ''master''),
           (''hooks'', YSeq [
              YMap [(''id'', YStr ''rstcheck'')]])]]"
  by (simp add: repos_def pre_commit_config_def)

lemma hook_decls:
  "map hook_decl (concat (map hooks_of repos)) =
    [(Some ''trailing-whitespace'', None),
     (Some ''end-of-file-fixer'', None),
     (Some ''check-docstring-first'', None),
     (Some ''check-json'', None),
     (Some ''check-yaml'', None),
     (Some ''pretty-format-json'',
        Some [Some ''--autofix'', Some ''--indent=2'', Some ''--no-sort-keys'']),
     (Some ''black'', Some [Some ''--line-length'', Some ''100'']),
     (Some ''flake8'', None),
     (Some ''seed-isort-config'', None),
     (Some ''isort'', None),
     (Some ''prenotebook'', None),
     (Some ''rstcheck'', None)]"
  by (simp add: repos_eq hooks_of_def hook_decl_def)

text \<open>
  C2. The pre-commit configuration is a sequence of records: there are seven of them, and
  every one has a non-empty source-repository URL, a non-empty revision tag and a
  non-empty list of hooks, each hook with an identifier and, optionally, a list of
  arguments.
\<close>

theorem repos_records_ok:
  "length repos = 7 \<and> (\<forall>r \<in> set repos. repo_ok r)"
  by (simp add: repos_eq repo_ok_def hook_ok_def)

theorem repos_records_ok_witness:
  "YMap [(''repo'', YStr ''https://github.com/ambv/black''),
         (''rev'', YStr ''19.10b0''),
         (''hooks'', YSeq [
            YMap [(''id'', YStr ''black''),
                  (''args'', YSeq [YStr ''--line-length'', YStr ''100''])]])] \<in> set repos
   \<and> repo_ok (YMap [(''repo'', YStr ''https://github.com/ambv/black''),
         (''rev'', YStr ''19.10b0''),
         (''hooks'', YSeq [
            YMap [(''id'', YStr ''black''),
                  (''args'', YSeq [YStr ''--line-length'', YStr ''100''])]])])"
proof -
  have m: "YMap [(''repo'', YStr ''https://github.com/ambv/black''),
         (''rev'', YStr ''19.10b0''),
         (''hooks'', YSeq [
            YMap [(''id'', YStr ''black''),
                  (''args'', YSeq [YStr ''--line-length'', YStr ''100''])]])] \<in> set repos"
    by (simp add: repos_eq)
  from repos_records_ok m show ?thesis by blast
qed


section \<open>Properties of the notebook\<close>

lemma statements_notebook:
  "statements notebook =
     cell_1 @ cell_3 @ cell_4 @ cell_6 @ cell_8 @ cell_10 @ cell_12 @ cell_13 @ cell_15 @ cell_18 @
     cell_19 @ cell_20 @ cell_22 @ cell_25 @ cell_27 @ cell_29 @ cell_32 @ cell_34 @ cell_35 @
     cell_37 @ cell_39 @ cell_41 @ cell_43 @ cell_44 @ cell_47 @ cell_49 @ cell_51 @ cell_53 @
     cell_55 @ cell_57 @ cell_59 @ cell_61 @ cell_63 @ cell_65 @ cell_67 @ cell_69 @ cell_71 @
     cell_73 @ cell_75 @ cell_76 @ cell_77 @ cell_79 @ cell_80 @ cell_82 @ cell_83 @ cell_84 @
     cell_85 @ cell_87"
  by (simp add: statements_def notebook_def)

lemmas cell_defs =
  cell_1_def cell_3_def cell_4_def cell_6_def cell_8_def cell_10_def cell_12_def cell_13_def
  cell_15_def cell_18_def cell_19_def cell_20_def cell_22_def cell_25_def cell_27_def cell_29_def
  cell_32_def cell_34_def cell_35_def cell_37_def cell_39_def cell_41_def cell_43_def cell_44_def
  cell_47_def cell_49_def cell_51_def cell_53_def cell_55_def cell_57_def cell_59_def cell_61_def
  cell_63_def cell_65_def cell_67_def cell_69_def cell_71_def cell_73_def cell_75_def cell_76_def
  cell_77_def cell_79_def cell_80_def cell_82_def cell_83_def cell_84_def cell_85_def cell_87_def



lemma function_defs_notebook: "function_defs notebook = [time_mean, remove_time_mean]"
  by (simp add: function_defs_def statements_notebook cell_defs time_mean_def remove_time_mean_def)


subsection \<open>Evaluation reads the globals only through free names\<close>

lemma lookup_local: "l n = Some v \<Longrightarrow> lookup L g l n = Some v"
  by (simp add: lookup_def)

lemma eval_list_cong:
  "(\<And>e h. e \<in> set es \<Longrightarrow> eval L g1 l e h = eval L g2 l e h)
   \<Longrightarrow> eval_list L g1 l es h = eval_list L g2 l es h"
  by (induction es arbitrary: h) (simp_all cong: prod.case_cong sum.case_cong)

lemma eval_kws_cong:
  "(\<And>k e h. (k, e) \<in> set kws \<Longrightarrow> eval L g1 l e h = eval L g2 l e h)
   \<Longrightarrow> eval_kws L g1 l kws h = eval_kws L g2 l kws h"
proof (induction kws arbitrary: h)
  case Nil
  show ?case by simp
next
  case (Cons p kws)
  obtain k e where p: "p = (k, e)" by (cases p)
  have "eval L g1 l e h = eval L g2 l e h" for h
    using Cons.prems [of k e h] p by simp
  moreover have "eval_kws L g1 l kws h = eval_kws L g2 l kws h" for h
  proof (rule Cons.IH)
    fix k' e' h'
    assume "(k', e') \<in> set kws"
    then show "eval L g1 l e' h' = eval L g2 l e' h'"
      using Cons.prems [of k' e' h'] by simp
  qed
  ultimately show ?case by (simp add: p cong: prod.case_cong sum.case_cong)
qed

lemma names_arg: "e \<in> set as \<Longrightarrow> set (names e) \<subseteq> set (names (Call f as kws))"
  by auto

lemma names_kw: "(k, e) \<in> set kws \<Longrightarrow> set (names e) \<subseteq> set (names (Call f as kws))"
proof
  fix n
  assume "(k, e) \<in> set kws" and "n \<in> set (names e)"
  then have "\<exists>p \<in> set kws. n \<in> set (case p of (k, e) \<Rightarrow> names e)"
    by (intro bexI [of _ "(k, e)"]) simp_all
  then show "n \<in> set (names (Call f as kws))" by simp
qed

lemma names_item: "e \<in> set es \<Longrightarrow> set (names e) \<subseteq> set (names (Tuple es))"
  by auto

lemma eval_closed:
  "set (names e) \<subseteq> dom l \<Longrightarrow> eval L g1 l e h = eval L g2 l e h"
proof (induction e arbitrary: h)
  case (Name n)
  then obtain v where "l n = Some v" by auto
  then show ?case by (simp add: lookup_local)
next
  case (Call f as kws)
  have f: "eval L g1 l f h = eval L g2 l f h" for h
    using Call.IH(1) Call.prems by simp
  have as: "eval_list L g1 l as h = eval_list L g2 l as h" for h
  proof (rule eval_list_cong)
    fix e h assume e: "e \<in> set as"
    from names_arg [OF e] Call.prems have "set (names e) \<subseteq> dom l" by (rule subset_trans)
    with e show "eval L g1 l e h = eval L g2 l e h" by (rule Call.IH(2))
  qed
  have kws: "eval_kws L g1 l kws h = eval_kws L g2 l kws h" for h
  proof (rule eval_kws_cong)
    fix k e h assume e: "(k, e) \<in> set kws"
    from names_kw [OF e] Call.prems have n: "set (names e) \<subseteq> dom l" by (rule subset_trans)
    have s: "e \<in> Basic_BNFs.snds (k, e)" by simp
    from e s n show "eval L g1 l e h = eval L g2 l e h" by (rule Call.IH(3))
  qed
  show ?case by (simp add: f as kws cong: prod.case_cong sum.case_cong)
next
  case (Tuple es)
  have "eval_list L g1 l es h = eval_list L g2 l es h" for h
  proof (rule eval_list_cong)
    fix e h assume e: "e \<in> set es"
    from names_item [OF e] Tuple.prems have "set (names e) \<subseteq> dom l" by (rule subset_trans)
    with e show "eval L g1 l e h = eval L g2 l e h" by (rule Tuple.IH)
  qed
  then show ?case by simp
qed (simp_all cong: prod.case_cong sum.case_cong)

text \<open>
  A function whose body is a single \<open>return\<close> of an expression over its parameters
  gives the same result under any two sets of global bindings.
\<close>

lemma call_closed_return:
  assumes "set (names e) \<subseteq> set ps"
  shows "call_function L g1 (FunctionDef f ps [Return e]) vs h
       = call_function L g2 (FunctionDef f ps [Return e]) vs h"
proof (cases "length vs = length ps")
  case True
  then have "dom (map_of (zip ps vs)) = set ps" by (simp add: dom_map_of_zip)
  with assms have "set (names e) \<subseteq> dom (map_of (zip ps vs))" by simp
  then show ?thesis using True by (simp add: eval_closed)
next
  case False
  then show ?thesis by simp
qed

text \<open>What the two functions of the notebook compute, in terms of the library alone.\<close>

lemma call_time_mean:
  "call_function L g time_mean [v] h =
     (case getattr L v ''mean'' h of
        (Inl err, h1) \<Rightarrow> (Inl err, h1)
      | (Inr m, h1) \<Rightarrow> call L m [] [(''dim'', literal L (Str ''time''))] h1)"
  by (simp add: time_mean_def lookup_def split: prod.split sum.split)

lemma call_remove_time_mean:
  "call_function L g remove_time_mean [v] h =
     (case getattr L v ''mean'' h of
        (Inl err, h1) \<Rightarrow> (Inl err, h1)
      | (Inr m, h1) \<Rightarrow>
          (case call L m [] [(''dim'', literal L (Str ''time''))] h1 of
             (Inl err, h2) \<Rightarrow> (Inl err, h2)
           | (Inr w, h2) \<Rightarrow> binop L Sub v w h2))"
  by (simp add: remove_time_mean_def lookup_def split: prod.split sum.split)

lemma free_names_defs: "free_names time_mean = []" "free_names remove_time_mean = []"
  by (simp_all add: free_names_def stmt_names_def time_mean_def remove_time_mean_def)

text \<open>
  C7. The notebook defines two functions, \<open>time_mean\<close> and \<open>remove_time_mean\<close>. Each takes
  one argument, reads no name but its parameter, and returns the same result, with the
  same effect on the libraries, whatever the cells have bound before the call: two calls
  on equal arguments differ in nothing when only the global bindings differ.
\<close>

theorem notebook_functions_ignore_globals:
  "map def_name (function_defs notebook) = [''time_mean'', ''remove_time_mean''] \<and>
   (\<forall>d \<in> set (function_defs notebook).
      length (def_params d) = 1 \<and> free_names d = [] \<and>
      call_function L g d vs h = call_function L g' d vs h)"
proof -
  have tm: "call_function L g time_mean vs h = call_function L g' time_mean vs h"
    unfolding time_mean_def by (rule call_closed_return) simp_all
  have rtm: "call_function L g remove_time_mean vs h = call_function L g' remove_time_mean vs h"
    unfolding remove_time_mean_def by (rule call_closed_return) simp_all
  have nm: "def_name time_mean = ''time_mean''" "def_name remove_time_mean = ''remove_time_mean''"
    by (simp_all add: time_mean_def remove_time_mean_def)
  have ps: "length (def_params time_mean) = 1" "length (def_params remove_time_mean) = 1"
    by (simp_all add: time_mean_def remove_time_mean_def)
  have "\<forall>d \<in> set [time_mean, remove_time_mean].
      length (def_params d) = 1 \<and> free_names d = [] \<and>
      call_function L g d vs h = call_function L g' d vs h"
    using tm rtm ps free_names_defs by (simp only: list.set ball_simps simp_thms)
  moreover have "map def_name [time_mean, remove_time_mean] = [''time_mean'', ''remove_time_mean'']"
    using nm by (simp only: list.map)
  ultimately show ?thesis
    by (simp only: function_defs_notebook simp_thms)
qed

theorem notebook_functions_ignore_globals_witness:
  "remove_time_mean \<in> set (function_defs notebook) \<and>
   length (def_params remove_time_mean) = 1 \<and> free_names remove_time_mean = [] \<and>
   call_function sample_library Map.empty remove_time_mean [5] 0
     = call_function sample_library [''x'' \<mapsto> 7] remove_time_mean [5] 0"
proof -
  have m: "remove_time_mean \<in> set (function_defs notebook)"
    by (simp add: function_defs_notebook)
  from notebook_functions_ignore_globals
         [where L = sample_library and g = Map.empty and g' = "[''x'' \<mapsto> 7]"
            and vs = "[5]" and h = 0]
       m
  show ?thesis by blast
qed

lemma sample_run:
  "call_function sample_library [''x'' \<mapsto> 7] remove_time_mean [5] 0 = (Inr 0, 3)"
  by (simp add: call_remove_time_mean sample_library_def)

subsection \<open>Remote endpoints\<close>









end
